theory Spec2Isabelle
  imports Complex_Main
begin

section \<open>The clouds server (lib/server.js)\<close>

text \<open>
  A shallow embedding of \<^verbatim>\<open>CloudsServer\<close>. Every method is a function from the
  server's fields and the broker's replies to the trace of effects the method causes:
  broker commands, local events, handler invocations, callback calls and exceptions.
  Asynchronous callbacks are run in the order the code chains them. Debug output is
  not part of the model.
\<close>

subsection \<open>JavaScript numbers and values\<close>

text \<open>
  A JavaScript number is a finite value, one of the two infinities, or NaN. Finite
  values are taken as reals: the model uses only comparison with zero and
  multiplication by the constants 2 and 1000, and rounding does not change the sign.
\<close>

datatype jsnum = JNaN | JFin real | JPosInf | JNegInf

text \<open>\<^verbatim>\<open>a > b\<close> on numbers: false as soon as one side is NaN.\<close>

fun js_gt :: "jsnum \<Rightarrow> jsnum \<Rightarrow> bool" where
  "js_gt JNaN _ = False"
| "js_gt _ JNaN = False"
| "js_gt (JFin a) (JFin b) = (b < a)"
| "js_gt (JFin a) JPosInf = False"
| "js_gt (JFin a) JNegInf = True"
| "js_gt JPosInf JPosInf = False"
| "js_gt JPosInf _ = True"
| "js_gt JNegInf _ = False"

text \<open>\<^verbatim>\<open>a * b\<close> on numbers.\<close>

fun js_inf_times :: "bool \<Rightarrow> real \<Rightarrow> jsnum" where
  "js_inf_times pos r =
     (if r = 0 then JNaN else if (0 < r) = pos then JPosInf else JNegInf)"

fun js_mul :: "jsnum \<Rightarrow> jsnum \<Rightarrow> jsnum" where
  "js_mul JNaN _ = JNaN"
| "js_mul _ JNaN = JNaN"
| "js_mul (JFin a) (JFin b) = JFin (a * b)"
| "js_mul (JFin a) JPosInf = js_inf_times True a"
| "js_mul (JFin a) JNegInf = js_inf_times False a"
| "js_mul JPosInf (JFin b) = js_inf_times True b"
| "js_mul JNegInf (JFin b) = js_inf_times False b"
| "js_mul JPosInf JPosInf = JPosInf"
| "js_mul JNegInf JNegInf = JPosInf"
| "js_mul JPosInf JNegInf = JNegInf"
| "js_mul JNegInf JPosInf = JNegInf"

text \<open>The values carried as arguments and results of calls and messages.\<close>

datatype jsval =
    JUndefined
  | JNull
  | JBool bool
  | JNum jsnum
  | JStr string
  | JArr "jsval list"

subsection \<open>Envelopes\<close>

text \<open>
  The envelope that \<^verbatim>\<open>utils.parseMessage\<close> hands to the dispatcher and that the
  \<^verbatim>\<open>utils.pocket...Message\<close> helpers build. \<^verbatim>\<open>id\<close> and \<^verbatim>\<open>name\<close> may be absent.
\<close>

record envelope =
  e_type :: string
  sender :: string
  e_id :: "string option"
  e_name :: "string option"
  args :: "jsval list"
  error :: "string option"

text \<open>
  Modelled from the spec: \<^verbatim>\<open>utils.pocketResultMessage(sender, id, err, args)\<close>, which is
  not among the sources. The spec's \<^verbatim>\<open>respondResult\<close> builds a \<^verbatim>\<open>result\<close> envelope with
  the source envelope's id, this node's id as sender, the error and the results; its
  scenarios show \<^verbatim>\<open>args: []\<close> where no results are passed. The error is kept as its
  description. The encoding of the envelope (\<^verbatim>\<open>msg.data\<close>) is not modelled: what is
  published is the envelope.
\<close>

definition pocketResultMessage ::
  "string \<Rightarrow> string option \<Rightarrow> string option \<Rightarrow> jsval list option \<Rightarrow> envelope" where
  "pocketResultMessage me_id src_id err res =
     \<lparr>e_type = ''result'', sender = me_id, e_id = src_id, e_name = None,
      args = (case res of None \<Rightarrow> [] | Some r \<Rightarrow> r), error = err\<rparr>"

text \<open>
  Modelled from the spec: \<^verbatim>\<open>utils.pocketSendMessage(sender, message)\<close>, which is not
  among the sources. The spec's \<^verbatim>\<open>send\<close> builds a \<^verbatim>\<open>message\<close> envelope with this node's
  id as sender and the payload as the only element of \<^verbatim>\<open>args\<close>.
\<close>

definition pocketSendMessage :: "string \<Rightarrow> jsval \<Rightarrow> envelope" where
  "pocketSendMessage me_id message =
     \<lparr>e_type = ''message'', sender = me_id, e_id = None, e_name = None,
      args = [message], error = None\<rparr>"

subsection \<open>Effects\<close>

text \<open>
  A function found under a name in \<^verbatim>\<open>_services\<close> is either one stored there by
  \<^verbatim>\<open>register\<close> or one inherited from \<^verbatim>\<open>Object.prototype\<close>.
\<close>

datatype fn_ref = Registered string | Inherited string

datatype action =
    Subscribe string
  | Publish string envelope
  | Emit string "jsval list"
  | Invoke fn_ref "jsval list"
  | Get string
  | Setex string jsnum jsnum
  | Keys string
  | Del "string list"
  | ClearInterval
  | End_cp
  | End_cs
  | Callback string
  | Raise string

subsection \<open>The server object\<close>

text \<open>
  A handler receives the call's arguments and a completion callback. What the
  dispatcher sees of a handler is the sequence of invocations of that callback, each
  with an optional error and the results; a handler that throws or never completes
  has the empty sequence.
\<close>

type_synonym handler = "jsval list \<Rightarrow> (string option \<times> jsval list) list"

text \<open>
  The fields of the server that its methods read: \<^verbatim>\<open>id\<close> (here \<open>node_id\<close>),
  \<^verbatim>\<open>_heartbeat\<close> as the number that a product reads from it, \<^verbatim>\<open>_prefix\<close> and the
  own properties of \<^verbatim>\<open>_services\<close>, which are the handlers stored by \<^verbatim>\<open>register\<close>.
\<close>

record server =
  node_id :: string
  heartbeat :: jsnum
  prefix :: string
  services :: "string \<rightharpoonup> handler"

text \<open>
  What the caller may have put into the heartbeat option. The constructor uses the
  value only in \<^verbatim>\<open>options.heartbeat > 0\<close> and in products, both of which convert it
  to a number first. A string or an object is therefore represented by the number
  that this conversion makes of it: 30 for \<^verbatim>\<open>'30'\<close>, 5 for \<^verbatim>\<open>[5]\<close>, NaN for
  \<^verbatim>\<open>'abc'\<close>.
\<close>

datatype heartbeat_option =
    Absent
  | Null
  | Boolean bool
  | Number jsnum
  | Converting jsnum

text \<open>The conversion to a number that \<^verbatim>\<open>>\<close> and \<^verbatim>\<open>*\<close> apply to an operand.\<close>

fun to_number :: "heartbeat_option \<Rightarrow> jsnum" where
  "to_number Absent = JNaN"
| "to_number Null = JFin 0"
| "to_number (Boolean b) = JFin (if b then 1 else 0)"
| "to_number (Number n) = n"
| "to_number (Converting n) = n"

text \<open>
  The options object that the constructor reads, and writes to. An object that is
  frozen, or whose heartbeat property cannot be written, ignores the assignment: the
  file is not in strict mode, so nothing is thrown.
\<close>

record options =
  opt_heartbeat :: heartbeat_option
  opt_redis_prefix :: "string option"
  opt_frozen :: bool

text \<open>
  The constructor's statement
  \<^verbatim>\<open>if (!(options.heartbeat > 0)) options.heartbeat = define.heartbeat\<close>, where
  \<^verbatim>\<open>define.heartbeat\<close> is a parameter: its module is not among the sources.
\<close>

definition default_heartbeat :: "jsnum \<Rightarrow> options \<Rightarrow> options" where
  "default_heartbeat define_heartbeat opts =
     (if \<not> js_gt (to_number (opt_heartbeat opts)) (JFin 0) then
        (if opt_frozen opts then opts else opts\<lparr>opt_heartbeat := Number define_heartbeat\<rparr>)
      else opts)"

text \<open>
  Modelled from the spec: \<^verbatim>\<open>utils.createNamespace(options)\<close>, which is not among the
  sources. The spec starts the heartbeat timer at the configured interval and takes
  the key prefix from the configuration: \<^verbatim>\<open>ns('heartbeat')\<close> and
  \<^verbatim>\<open>ns('redis.prefix')\<close> read the fields of the options object.
\<close>

definition ns_heartbeat :: "options \<Rightarrow> heartbeat_option" where
  "ns_heartbeat opts = opt_heartbeat opts"

definition ns_redis_prefix :: "options \<Rightarrow> string option" where
  "ns_redis_prefix opts = opt_redis_prefix opts"

text \<open>
  The constructor. \<^verbatim>\<open>define.redisPrefix\<close> and the result of
  \<^verbatim>\<open>utils.uniqueId('server')\<close> are parameters as well. \<^verbatim>\<open>_heartbeat\<close> is assigned
  \<^verbatim>\<open>options.heartbeat\<close> and is only ever used in the product
  \<^verbatim>\<open>this._heartbeat * 2\<close>: the server keeps the number that the product reads from
  it. An absent or empty prefix is falsy. The second component of the result is the
  delay given to \<^verbatim>\<open>setInterval\<close>, \<^verbatim>\<open>ns('heartbeat') * 1000\<close>.
\<close>

definition CloudsServer :: "jsnum \<Rightarrow> string \<Rightarrow> string \<Rightarrow> options \<Rightarrow> server \<times> jsnum" where
  "CloudsServer define_heartbeat define_redisPrefix uid opts0 =
     (let opts = default_heartbeat define_heartbeat opts0;
          pf = (case ns_redis_prefix opts of
                  None \<Rightarrow> define_redisPrefix
                | Some p \<Rightarrow> if p = [] then define_redisPrefix else p)
      in (\<lparr>node_id = uid, heartbeat = to_number (opt_heartbeat opts), prefix = pf,
           services = Map.empty\<rparr>,
          js_mul (to_number (ns_heartbeat opts)) (JFin 1000)))"

text \<open>\<^verbatim>\<open>Array.prototype.join\<close> on strings.\<close>

fun join :: "string \<Rightarrow> string list \<Rightarrow> string" where
  "join sep [] = []"
| "join sep [x] = x"
| "join sep (x # y # ys) = x @ sep @ join sep (y # ys)"

text \<open>\<^verbatim>\<open>_key\<close>: the segments, after the prefix when there is one, joined with colons.\<close>

definition key :: "server \<Rightarrow> string list \<Rightarrow> string" where
  "key srv list = join '':'' (if prefix srv \<noteq> [] then prefix srv # list else list)"

subsection \<open>Listening\<close>

text \<open>\<^verbatim>\<open>_listen\<close> subscribes the receiving connection to the node's own channel.\<close>

definition listen :: "server \<Rightarrow> action list" where
  "listen srv = [Subscribe (key srv [''L'', node_id srv])]"

text \<open>The handler of the \<^verbatim>\<open>subscribe\<close> event installed by \<^verbatim>\<open>_listen\<close>.\<close>

definition on_subscribe :: "server \<Rightarrow> string \<Rightarrow> nat \<Rightarrow> action list" where
  "on_subscribe srv channel count = [Emit ''listen'' []]"

subsection \<open>Responding and dispatching\<close>

definition responseResult ::
  "server \<Rightarrow> envelope \<Rightarrow> string option \<Rightarrow> jsval list option \<Rightarrow> action list" where
  "responseResult srv sourceMsg err res =
     [Publish (key srv [''L'', sender sourceMsg])
        (pocketResultMessage (node_id srv) (e_id sourceMsg) err res)]"

text \<open>
  The function-valued properties every object inherits from \<^verbatim>\<open>Object.prototype\<close>.
  \<^verbatim>\<open>_services\<close> is created as \<^verbatim>\<open>{}\<close>, so \<^verbatim>\<open>_services[name]\<close> finds them when no
  handler of that name has been stored.
\<close>

definition object_prototype_functions :: "string list" where
  "object_prototype_functions =
     [''constructor'', ''hasOwnProperty'', ''isPrototypeOf'', ''propertyIsEnumerable'',
      ''toLocaleString'', ''toString'', ''valueOf'',
      ''__defineGetter__'', ''__defineSetter__'', ''__lookupGetter__'', ''__lookupSetter__'']"

text \<open>
  \<^verbatim>\<open>me._services[msg.name]\<close> as far as \<^verbatim>\<open>typeof fn === 'function'\<close> sees it. An absent
  name is the property key \<^verbatim>\<open>undefined\<close>.
\<close>

definition property_key :: "string option \<Rightarrow> string" where
  "property_key n = (case n of None \<Rightarrow> ''undefined'' | Some s \<Rightarrow> s)"

definition lookup_function :: "server \<Rightarrow> string \<Rightarrow> fn_ref option" where
  "lookup_function srv n =
     (case services srv n of
        Some h \<Rightarrow> Some (Registered n)
      | None \<Rightarrow> if n \<in> set object_prototype_functions then Some (Inherited n) else None)"

text \<open>
  \<^verbatim>\<open>fn.apply(null, msg.args.concat(callback))\<close>. A registered handler completes as its
  behaviour says. None of the functions of \<^verbatim>\<open>Object.prototype\<close> calls its last
  argument: applied to \<^verbatim>\<open>null\<close> they return or throw.
\<close>

definition completions :: "server \<Rightarrow> fn_ref \<Rightarrow> jsval list \<Rightarrow> (string option \<times> jsval list) list" where
  "completions srv f xs =
     (case f of
        Registered n \<Rightarrow> (case services srv n of Some h \<Rightarrow> h xs | None \<Rightarrow> [])
      | Inherited n \<Rightarrow> [])"

definition handleCallService :: "server \<Rightarrow> envelope \<Rightarrow> action list" where
  "handleCallService srv msg =
     (case lookup_function srv (property_key (e_name msg)) of
        None \<Rightarrow> responseResult srv msg (Some ''service handler not found'') None
      | Some f \<Rightarrow>
          Invoke f (args msg) #
          concat (map (\<lambda>(err, res). responseResult srv msg err (Some res))
                      (completions srv f (args msg))))"

definition handleSendMessage :: "server \<Rightarrow> envelope \<Rightarrow> action list" where
  "handleSendMessage srv msg = [Emit ''message'' [JStr (sender msg), JArr (args msg)]]"

definition handleMessage :: "server \<Rightarrow> envelope \<Rightarrow> action list" where
  "handleMessage srv msg =
     (if e_type msg = ''call'' then handleCallService srv msg
      else if e_type msg = ''message'' then handleSendMessage srv msg
      else responseResult srv msg (Some ''unknown message type'') None)"

text \<open>
  The handler of the \<^verbatim>\<open>message\<close> event installed by \<^verbatim>\<open>_listen\<close>. The decoder
  \<^verbatim>\<open>utils.parseMessage\<close> is a parameter.
\<close>

definition on_message :: "(string \<Rightarrow> envelope) \<Rightarrow> server \<Rightarrow> string \<Rightarrow> string \<Rightarrow> action list" where
  "on_message parseMessage srv channel msg =
     (if channel \<noteq> key srv [''L'', node_id srv] then []
      else handleMessage srv (parseMessage msg))"

subsection \<open>Sending\<close>

definition sendMessage :: "server \<Rightarrow> string \<Rightarrow> envelope \<Rightarrow> action list" where
  "sendMessage srv receiver msg = [Publish (key srv [''L'', receiver]) msg]"

definition send :: "server \<Rightarrow> string \<Rightarrow> jsval \<Rightarrow> action list" where
  "send srv receiver message = sendMessage srv receiver (pocketSendMessage (node_id srv) message)"

subsection \<open>Service scores\<close>

definition resetServiceScore :: "server \<Rightarrow> string \<Rightarrow> action list" where
  "resetServiceScore srv name =
     [Setex (key srv [''S'', name, node_id srv]) (js_mul (heartbeat srv) (JFin 2)) (JFin 0)]"

text \<open>
  The callback that \<^verbatim>\<open>_keepServiceScore\<close> passes to \<^verbatim>\<open>get\<close> is a plain function
  expression, and it reads \<^verbatim>\<open>this._heartbeat\<close> and calls \<^verbatim>\<open>this._callback\<close>. Its
  \<^verbatim>\<open>this\<close> is chosen by whoever invokes it. A receiver is described by what these
  two properties give: the value of \<^verbatim>\<open>_heartbeat\<close>, if it has one, and whether
  \<^verbatim>\<open>_callback\<close> is a function.
\<close>

record receiver =
  r_heartbeat :: "jsnum option"
  r_callback :: bool

definition server_receiver :: "server \<Rightarrow> receiver" where
  "server_receiver srv = \<lparr>r_heartbeat = Some (heartbeat srv), r_callback = True\<rparr>"

text \<open>
  The receiver inside a reply callback run by the broker client: an object of the
  client or the global object, never the server. It has neither property.
\<close>

definition client_receiver :: receiver where
  "client_receiver = \<lparr>r_heartbeat = None, r_callback = False\<rparr>"

text \<open>
  \<^verbatim>\<open>_keepServiceScore\<close>, given the receiver of the reply callback and the reply of
  \<^verbatim>\<open>get\<close>: an error, or the stored score (\<open>None\<close> for the null reply of an absent or
  expired key). A score is represented by the number the comparison \<^verbatim>\<open>ret > 0\<close>
  reads from it, NaN for a value that is not a number. The arguments of \<^verbatim>\<open>setex\<close>
  are evaluated from left to right: \<^verbatim>\<open>this._heartbeat * 2\<close> is NaN on a receiver
  without the property, and calling a missing \<^verbatim>\<open>this._callback\<close> throws before
  \<^verbatim>\<open>setex\<close> is called.
\<close>

definition keepServiceScore ::
  "receiver \<Rightarrow> server \<Rightarrow> string \<Rightarrow> string option \<Rightarrow> jsnum option \<Rightarrow> action list" where
  "keepServiceScore this srv name err ret =
     (let k = key srv [''S'', name, node_id srv] in
      Get k #
      (if err \<noteq> None then resetServiceScore srv name
       else case ret of
         None \<Rightarrow> resetServiceScore srv name
       | Some score \<Rightarrow>
           if \<not> js_gt score (JFin 0) then resetServiceScore srv name
           else
             (let ttl = js_mul (case r_heartbeat this of None \<Rightarrow> JNaN | Some h \<Rightarrow> h) (JFin 2)
              in if r_callback this then [Setex k ttl score] else [Raise ''TypeError''])))"

subsection \<open>Leaving\<close>















subsection \<open>Reading a trace\<close>

fun publications :: "action list \<Rightarrow> (string \<times> envelope) list" where
  "publications [] = []"
| "publications (Publish channel msg # as) = (channel, msg) # publications as"
| "publications (_ # as) = publications as"

fun invocations :: "action list \<Rightarrow> (fn_ref \<times> jsval list) list" where
  "invocations [] = []"
| "invocations (Invoke f xs # as) = (f, xs) # invocations as"
| "invocations (_ # as) = invocations as"

fun emissions :: "action list \<Rightarrow> (string \<times> jsval list) list" where
  "emissions [] = []"
| "emissions (Emit e xs # as) = (e, xs) # emissions as"
| "emissions (_ # as) = emissions as"

subsection \<open>Example nodes and envelopes\<close>

text \<open>The handler of the spec's scenario: \<^verbatim>\<open>(x, done) => done(null, x)\<close>.\<close>

definition first_arg :: "jsval list \<Rightarrow> jsval" where
  "first_arg xs = (case xs of [] \<Rightarrow> JUndefined | x # _ \<Rightarrow> x)"

definition echo_handler :: handler where
  "echo_handler xs = [(None, [first_arg xs])]"


definition node_A :: server where
  "node_A = \<lparr>node_id = ''A'', heartbeat = JFin 2, prefix = ''clouds'',
             services = [''echo'' \<mapsto> echo_handler]\<rparr>"



definition call_envelope :: "string \<Rightarrow> envelope" where
  "call_envelope n =
     \<lparr>e_type = ''call'', sender = ''B'', e_id = Some ''1'', e_name = Some n,
      args = [JStr ''hi''], error = None\<rparr>"

definition ping_envelope :: envelope where
  "ping_envelope =
     \<lparr>e_type = ''ping'', sender = ''B'', e_id = Some ''1'', e_name = None,
      args = [], error = None\<rparr>"



text \<open>The options \<^verbatim>\<open>{heartbeat: 0}\<close>, \<^verbatim>\<open>{heartbeat: true}\<close> and \<^verbatim>\<open>Object.freeze({heartbeat: 0})\<close>.\<close>

definition zero_heartbeat_options :: options where
  "zero_heartbeat_options =
     \<lparr>opt_heartbeat = Number (JFin 0), opt_redis_prefix = None, opt_frozen = False\<rparr>"

definition true_heartbeat_options :: options where
  "true_heartbeat_options =
     \<lparr>opt_heartbeat = Boolean True, opt_redis_prefix = None, opt_frozen = False\<rparr>"

definition frozen_zero_heartbeat_options :: options where
  "frozen_zero_heartbeat_options =
     \<lparr>opt_heartbeat = Number (JFin 0), opt_redis_prefix = None, opt_frozen = True\<rparr>"

section \<open>Properties\<close>

subsection \<open>Traces of responses\<close>



subsection \<open>Calls\<close>




text \<open>
  Claim C3 asks for a \<^verbatim>\<open>service handler not found\<close> result whenever the name has no
  registered handler. The code tests \<^verbatim>\<open>typeof me._services[msg.name]\<close>, and for the
  name \<^verbatim>\<open>toString\<close> that is the function inherited from \<^verbatim>\<open>Object.prototype\<close>: it is
  applied to the arguments and nothing is published.
\<close>

theorem call_of_inherited_name_is_not_answered:
  "services node_A ''toString'' = None \<and>
   handleMessage node_A (call_envelope ''toString'') =
     [Invoke (Inherited ''toString'') [JStr ''hi'']] \<and>
   publications (handleMessage node_A (call_envelope ''toString'')) = []"
  by (simp add: handleMessage_def handleCallService_def lookup_function_def property_key_def
      completions_def node_A_def call_envelope_def object_prototype_functions_def)

text \<open>
  For every other name without a registered handler the dispatcher does what C3 says:
  no function is invoked and one result with the error is published to the sender.
\<close>

lemma call_of_unknown_name:
  assumes "e_type msg = ''call''"
    and "services srv (property_key (e_name msg)) = None"
    and "property_key (e_name msg) \<notin> set object_prototype_functions"
  shows "handleMessage srv msg =
           [Publish (key srv [''L'', sender msg])
              \<lparr>e_type = ''result'', sender = node_id srv, e_id = e_id msg, e_name = None,
               args = [], error = Some ''service handler not found''\<rparr>]"
  using assms
  by (simp add: handleMessage_def handleCallService_def lookup_function_def
      responseResult_def pocketResultMessage_def)

subsection \<open>Other envelopes\<close>

text \<open>
  Claim C4: an envelope whose type is neither \<^verbatim>\<open>call\<close> nor \<^verbatim>\<open>message\<close> causes exactly
  one effect, the publication to the sender's ListenChannel of a \<^verbatim>\<open>result\<close> envelope
  with the error \<^verbatim>\<open>unknown message type\<close>; no handler is invoked.
\<close>

theorem unknown_type_is_answered_with_an_error:
  assumes "e_type msg \<noteq> ''call''" and "e_type msg \<noteq> ''message''"
  shows "handleMessage srv msg =
           [Publish (key srv [''L'', sender msg])
              \<lparr>e_type = ''result'', sender = node_id srv, e_id = e_id msg, e_name = None,
               args = [], error = Some ''unknown message type''\<rparr>] \<and>
         invocations (handleMessage srv msg) = []"
  using assms by (simp add: handleMessage_def responseResult_def pocketResultMessage_def)

theorem unknown_type_is_answered_with_an_error_witness:
  "e_type ping_envelope \<noteq> ''call'' \<and> e_type ping_envelope \<noteq> ''message'' \<and>
   handleMessage node_A ping_envelope =
     [Publish ''clouds:L:B''
        \<lparr>e_type = ''result'', sender = ''A'', e_id = Some ''1'', e_name = None,
         args = [], error = Some ''unknown message type''\<rparr>] \<and>
   invocations (handleMessage node_A ping_envelope) = []"
proof -
  have a: "e_type ping_envelope \<noteq> ''call''" and b: "e_type ping_envelope \<noteq> ''message''"
    by (simp_all add: ping_envelope_def)
  from unknown_type_is_answered_with_an_error [OF a b, of node_A] a b show ?thesis
    by (simp add: ping_envelope_def node_A_def key_def)
qed

subsection \<open>Sending\<close>

text \<open>
  Claim C6: \<^verbatim>\<open>send(receiverId, payload)\<close> causes exactly one effect, the publication
  of a \<^verbatim>\<open>message\<close> envelope with this node's id as sender and the payload as the only
  argument, to the channel \<^verbatim>\<open>[prefix:]L:<receiverId>\<close>.
\<close>

theorem send_publishes_one_message:
  "send srv receiver payload =
     [Publish (key srv [''L'', receiver])
        \<lparr>e_type = ''message'', sender = node_id srv, e_id = None, e_name = None,
         args = [payload], error = None\<rparr>] \<and>
   key srv [''L'', receiver] =
     (if prefix srv \<noteq> [] then prefix srv @ '':L:'' @ receiver else ''L:'' @ receiver)"
  by (simp add: send_def sendMessage_def pocketSendMessage_def key_def)

subsection \<open>Listening\<close>

text \<open>
  Claim C7, as stated, names the event \<^verbatim>\<open>listening\<close>. No such event is emitted when
  the subscription is acknowledged.
\<close>

theorem subscription_emits_no_listening_event:
  "(''listening'', []) \<notin> set (emissions (on_subscribe node_A ''clouds:L:A'' 1))"
  by (simp add: on_subscribe_def)

text \<open>
  Claim C7, amended: when the broker acknowledges the subscription, the node emits
  one event to its local listeners, named \<^verbatim>\<open>listen\<close>, and does nothing else.
\<close>

theorem subscription_emits_listen:
  "on_subscribe srv channel count = [Emit ''listen'' []]"
  by (simp add: on_subscribe_def)

text \<open>
  Claim C8: a raw message that arrives on a channel other than this node's own
  ListenChannel has no effect, whatever the decoder would make of it: nothing is
  dispatched, invoked, emitted or published.
\<close>

theorem message_on_other_channel_is_dropped:
  "channel \<noteq> key srv [''L'', node_id srv] \<Longrightarrow> on_message parseMessage srv channel msg = []"
  by (simp add: on_message_def)

theorem message_on_other_channel_is_dropped_witness:
  "''clouds:L:B'' \<noteq> key node_A [''L'', node_id node_A] \<and>
   on_message (\<lambda>raw. call_envelope ''echo'') node_A ''clouds:L:B'' ''raw'' = []"
proof -
  have h: "''clouds:L:B'' \<noteq> key node_A [''L'', node_id node_A]"
    by (simp add: key_def node_A_def)
  from message_on_other_channel_is_dropped [OF h] h show ?thesis by simp
qed

subsection \<open>Service scores\<close>

text \<open>
  Claim C2 asks that a positive score be rewritten with a refreshed TTL. Inside the
  reply callback of \<^verbatim>\<open>get\<close> the code says \<^verbatim>\<open>this\<close> where it means \<^verbatim>\<open>me\<close>: with the
  key holding 5, \<^verbatim>\<open>this._callback\<close> is not a function, the call throws, and \<^verbatim>\<open>setex\<close>
  is never sent.
\<close>

theorem positive_score_is_not_refreshed:
  "keepServiceScore client_receiver node_A ''echo'' None (Some (JFin 5)) =
     [Get ''clouds:S:echo:A'', Raise ''TypeError'']"
  by (simp add: keepServiceScore_def client_receiver_def node_A_def key_def)

text \<open>
  The same holds for every positive score. Had the callback been bound to the server,
  the score would have been rewritten with the TTL of twice the heartbeat.
\<close>

lemma keepServiceScore_in_reply_callback:
  "js_gt score (JFin 0) \<Longrightarrow>
   keepServiceScore client_receiver srv name None (Some score) =
     [Get (key srv [''S'', name, node_id srv]), Raise ''TypeError'']"
  by (simp add: keepServiceScore_def client_receiver_def Let_def)

lemma keepServiceScore_bound_to_server:
  "js_gt score (JFin 0) \<Longrightarrow>
   keepServiceScore (server_receiver srv) srv name None (Some score) =
     [Get (key srv [''S'', name, node_id srv]),
      Setex (key srv [''S'', name, node_id srv]) (js_mul (heartbeat srv) (JFin 2)) score]"
  by (simp add: keepServiceScore_def server_receiver_def Let_def)

text \<open>
  The fallback is as C2 says, whatever the receiver: on an error, a null reply or a
  score that does not compare greater than zero, the key is reset to 0 with the TTL
  of twice the heartbeat.
\<close>

lemma keepServiceScore_fallback:
  "err \<noteq> None \<or> ret = None \<or> (\<exists>score. ret = Some score \<and> \<not> js_gt score (JFin 0)) \<Longrightarrow>
   keepServiceScore this srv name err ret =
     [Get (key srv [''S'', name, node_id srv]),
      Setex (key srv [''S'', name, node_id srv]) (js_mul (heartbeat srv) (JFin 2)) (JFin 0)]"
  by (auto simp: keepServiceScore_def resetServiceScore_def Let_def)

subsection \<open>The heartbeat interval\<close>

lemma js_gt_scaled: "js_gt h (JFin 0) \<Longrightarrow> 0 < c \<Longrightarrow> js_gt (js_mul h (JFin c)) (JFin 0)"
  by (cases h) auto

lemma js_gt_zero_cases:
  "\<not> js_gt n (JFin 0) \<longleftrightarrow> n = JNaN \<or> n = JNegInf \<or> (\<exists>r. n = JFin r \<and> r \<le> 0)"
  by (cases n) auto

lemma not_positive_cases:
  "\<not> js_gt (to_number v) (JFin 0) \<longleftrightarrow>
     v = Absent \<or> v = Null \<or> v = Boolean False \<or>
     (\<exists>n. (v = Number n \<or> v = Converting n) \<and>
          (n = JNaN \<or> n = JNegInf \<or> (\<exists>r. n = JFin r \<and> r \<le> 0)))"
  by (cases v) (auto simp: js_gt_zero_cases)

text \<open>
  Claim C9, as stated, has the default substituted for every heartbeat that is not a
  number, and the interval always positive. The test is \<^verbatim>\<open>options.heartbeat > 0\<close>,
  which converts its operand: \<^verbatim>\<open>true\<close> compares greater than 0 and is kept. And the
  default is written into the caller's object: a frozen \<^verbatim>\<open>{heartbeat: 0}\<close> keeps
  its 0, which gives the delay 0 and the TTL 0.
\<close>

theorem default_is_not_always_substituted:
  "opt_heartbeat (default_heartbeat (JFin 2) true_heartbeat_options) = Boolean True \<and>
   heartbeat (fst (CloudsServer (JFin 2) ''clouds'' ''A'' true_heartbeat_options)) = JFin 1 \<and>
   opt_heartbeat (default_heartbeat (JFin 2) frozen_zero_heartbeat_options) = Number (JFin 0) \<and>
   snd (CloudsServer (JFin 2) ''clouds'' ''A'' frozen_zero_heartbeat_options) = JFin 0 \<and>
   resetServiceScore (fst (CloudsServer (JFin 2) ''clouds'' ''A'' frozen_zero_heartbeat_options))
     ''echo'' = [Setex ''clouds:S:echo:A'' (JFin 0) (JFin 0)]"
  by (simp add: CloudsServer_def default_heartbeat_def true_heartbeat_options_def
      frozen_zero_heartbeat_options_def ns_heartbeat_def ns_redis_prefix_def
      resetServiceScore_def key_def Let_def)

text \<open>
  Claim C9, amended: the constructor keeps a heartbeat option that compares greater
  than 0 after conversion to a number, be it a number or not, and, in an options
  object that can be written to, substitutes \<^verbatim>\<open>define.heartbeat\<close> for every other:
  for an absent one, for NaN, zero and a negative number, and for a value that is not
  a number and converts to one of these (\<open>not_positive_cases\<close>). With a positive
  default, and an options object that can be written to or already holds a heartbeat
  greater than 0, the interval kept by the server is therefore positive, and so are
  the timer's delay, 1000 times the interval, and the TTL that \<^verbatim>\<open>_resetServiceScore\<close>
  writes, twice the interval.
\<close>

theorem heartbeat_interval_is_positive:
  assumes "js_gt define_heartbeat (JFin 0)"
    and "\<not> opt_frozen opts \<or> js_gt (to_number (opt_heartbeat opts)) (JFin 0)"
  shows "opt_heartbeat (default_heartbeat define_heartbeat opts) =
           (if js_gt (to_number (opt_heartbeat opts)) (JFin 0) then opt_heartbeat opts
            else Number define_heartbeat) \<and>
         heartbeat (fst (CloudsServer define_heartbeat define_redisPrefix uid opts)) =
           to_number (opt_heartbeat (default_heartbeat define_heartbeat opts)) \<and>
         js_gt (heartbeat (fst (CloudsServer define_heartbeat define_redisPrefix uid opts)))
           (JFin 0) \<and>
         snd (CloudsServer define_heartbeat define_redisPrefix uid opts) =
           js_mul (heartbeat (fst (CloudsServer define_heartbeat define_redisPrefix uid opts)))
             (JFin 1000) \<and>
         js_gt (snd (CloudsServer define_heartbeat define_redisPrefix uid opts)) (JFin 0) \<and>
         resetServiceScore (fst (CloudsServer define_heartbeat define_redisPrefix uid opts)) name =
           [Setex (key (fst (CloudsServer define_heartbeat define_redisPrefix uid opts))
                     [''S'', name, uid])
              (js_mul (heartbeat (fst (CloudsServer define_heartbeat define_redisPrefix uid opts)))
                 (JFin 2))
              (JFin 0)] \<and>
         js_gt (js_mul (heartbeat (fst (CloudsServer define_heartbeat define_redisPrefix uid opts)))
                  (JFin 2))
           (JFin 0)"
proof -
  let ?n = "CloudsServer define_heartbeat define_redisPrefix uid opts"
  have d: "opt_heartbeat (default_heartbeat define_heartbeat opts) =
           (if js_gt (to_number (opt_heartbeat opts)) (JFin 0) then opt_heartbeat opts
            else Number define_heartbeat)"
    using assms(2) by (auto simp: default_heartbeat_def)
  have hb: "heartbeat (fst ?n) = to_number (opt_heartbeat (default_heartbeat define_heartbeat opts))"
    by (simp add: CloudsServer_def Let_def)
  have pos: "js_gt (heartbeat (fst ?n)) (JFin 0)"
    unfolding hb d using assms(1) by simp
  have per: "snd ?n = js_mul (heartbeat (fst ?n)) (JFin 1000)"
    by (simp add: CloudsServer_def Let_def ns_heartbeat_def)
  have id: "node_id (fst ?n) = uid"
    by (simp add: CloudsServer_def Let_def)
  from pos have p1000: "js_gt (js_mul (heartbeat (fst ?n)) (JFin 1000)) (JFin 0)"
    by (rule js_gt_scaled) simp
  from pos have p2: "js_gt (js_mul (heartbeat (fst ?n)) (JFin 2)) (JFin 0)"
    by (rule js_gt_scaled) simp
  show ?thesis
    using d hb pos per p1000 p2 by (simp add: resetServiceScore_def id)
qed

theorem heartbeat_interval_is_positive_witness:
  "js_gt (JFin 2) (JFin 0) \<and> \<not> opt_frozen zero_heartbeat_options \<and>
   \<not> js_gt (to_number (opt_heartbeat zero_heartbeat_options)) (JFin 0) \<and>
   opt_heartbeat (default_heartbeat (JFin 2) zero_heartbeat_options) = Number (JFin 2) \<and>
   heartbeat (fst (CloudsServer (JFin 2) ''clouds'' ''A'' zero_heartbeat_options)) = JFin 2 \<and>
   snd (CloudsServer (JFin 2) ''clouds'' ''A'' zero_heartbeat_options) = JFin 2000 \<and>
   resetServiceScore (fst (CloudsServer (JFin 2) ''clouds'' ''A'' zero_heartbeat_options))
     ''echo'' = [Setex ''clouds:S:echo:A'' (JFin 4) (JFin 0)]"
proof -
  let ?n = "CloudsServer (JFin 2) ''clouds'' ''A'' zero_heartbeat_options"
  have h: "js_gt (JFin 2) (JFin 0)" by simp
  have f: "\<not> opt_frozen zero_heartbeat_options"
    by (simp add: zero_heartbeat_options_def)
  then have g: "\<not> opt_frozen zero_heartbeat_options \<or>
      js_gt (to_number (opt_heartbeat zero_heartbeat_options)) (JFin 0)"
    by simp
  have z: "\<not> js_gt (to_number (opt_heartbeat zero_heartbeat_options)) (JFin 0)"
    by (simp add: zero_heartbeat_options_def)
  note t = heartbeat_interval_is_positive
    [OF h g, of "''clouds''" "''A''" "''echo''"]
  from t z have d: "opt_heartbeat (default_heartbeat (JFin 2) zero_heartbeat_options) = Number (JFin 2)"
    by simp
  from t d have hb: "heartbeat (fst ?n) = JFin 2" by simp
  from t have per: "snd ?n = js_mul (heartbeat (fst ?n)) (JFin 1000)" by blast
  from t have rs: "resetServiceScore (fst ?n) ''echo'' =
      [Setex (key (fst ?n) [''S'', ''echo'', ''A'']) (js_mul (heartbeat (fst ?n)) (JFin 2)) (JFin 0)]"
    by blast
  have k: "key (fst ?n) [''S'', ''echo'', ''A''] = ''clouds:S:echo:A''"
    by (simp add: CloudsServer_def key_def Let_def ns_redis_prefix_def default_heartbeat_def
        zero_heartbeat_options_def)
  from h f z d hb per rs k show ?thesis by simp
qed

subsection \<open>Leaving\<close>







subsection \<open>The keys a pattern matches\<close>









end
